theory Spec2Isabelle
  imports Complex_Main
begin

section \<open>The training loop and search harness of \<^verbatim>\<open>train_loops.py\<close>\<close>

text \<open>
  The module has three functions: the generator \<^verbatim>\<open>train_sinkhorn_vae\<close> (one trial),
  \<^verbatim>\<open>get_datasets\<close> and \<^verbatim>\<open>run_optuna_tune\<close>. Everything numerical is done by libraries
  (torch, geomloss, ray.tune) and by modules of the repository that are imported
  (\<^verbatim>\<open>models\<close>, \<^verbatim>\<open>datasets\<close>, \<^verbatim>\<open>side_information\<close>, \<^verbatim>\<open>training.search_space\<close>).
  The embedding keeps the control flow, the data flow and the Python arithmetic of
  the module itself, and takes every library call as a field of the record \<open>libs\<close>:
  \<^item> \<open>'w\<close> is the state the library calls read and change (the model's parameters,
    the optimizer's state, the random number generator);
  \<^item> \<open>'t\<close> is a tensor, \<open>'b\<close> a batch (a dict of tensors), \<open>'l\<close> a \<^verbatim>\<open>DataLoader\<close>.

  A library call whose arguments bind is taken to return; an exception raised inside
  a library is outside the model. Python floats are read as reals; Python ints as
  \<open>int\<close>. The exceptions the module's own expressions can raise are values of
  \<open>py_error\<close>: a division by zero, a local read before it is bound, and a call whose
  keywords do not bind to the callee's parameters (line 47).
\<close>

subsection \<open>Data\<close>

datatype py_error = ZeroDivisionError | UnboundLocalError | TypeError

text \<open>
  The trial configuration: the nested dict \<^verbatim>\<open>config\<close>, one field for every path the
  module reads (\<^verbatim>\<open>config['losses']['class']['weight']\<close> is \<open>losses_class_weight\<close>).
\<close>

record config =
  device :: string
  dataset_context :: bool
  dataset_directory :: string
  dataset_side_information_file_paths :: "string list"
  dataset_batch_size :: int
  model_latent_dims :: int
  model_softmax :: bool
  adam_learning_rate :: real
  adam_betas :: "real \<times> real"
  losses_distribution_type :: string
  losses_distribution_p :: real
  losses_distribution_blur :: real
  losses_distribution_alpha :: real
  losses_distribution_weight :: real
  losses_class_bias :: real
  losses_class_weight :: real
  losses_class_threshold :: real
  losses_reconstruction_weight :: real
  training_max_epochs :: int
  training_batch_size :: int
  latent_space_noise_std :: real

text \<open>
  The keyword arguments of \<^verbatim>\<open>VAE(...)\<close> (lines 39-44) and of \<^verbatim>\<open>Adam(...)\<close> (lines 47-51).
  The value of the keyword \<^verbatim>\<open>parameters\<close> of the latter is \<^verbatim>\<open>model.parameters()\<close>, which
  is read from the library state.
\<close>

record vae_args =
  latent_dim :: int
  input_dim :: int
  feature_dim :: int
  use_softmax :: bool

record adam_args =
  lr :: real
  betas :: "real \<times> real"

text \<open>What \<^verbatim>\<open>get_datasets\<close> hands to the libraries (lines 147-167).\<close>

record dataset_args =
  lock_path :: string
  side_information_paths :: "string list"
  hub_repo :: string
  hub_model :: string
  preprocess_device :: string
  dataroot :: string
  use_context :: bool
  cache :: bool
  validation_split :: real
  loader_batch_size :: int

text \<open>The library calls of the module.\<close>

record ('w, 't, 'b, 'l) libs =
  cuda_is_available :: bool
  load_datasets :: "dataset_args \<Rightarrow> 'w \<Rightarrow> ('l \<times> 'l \<times> 't) \<times> 'w"
  loader_batches :: "'l \<Rightarrow> 'w \<Rightarrow> 'b list \<times> 'w"
  batch_get :: "'b \<Rightarrow> string \<Rightarrow> 't"
  VAE :: "vae_args \<Rightarrow> 'w \<Rightarrow> 'w"
  model_to :: "string \<Rightarrow> 'w \<Rightarrow> 'w"
  Adam_parameters :: "string list"
  Adam_required :: "string list"
  Adam :: "adam_args \<Rightarrow> 'w \<Rightarrow> 'w"
  os_path_join :: "string \<Rightarrow> string \<Rightarrow> string"
  load_checkpoint :: "string \<Rightarrow> 'w \<Rightarrow> 'w"
  SamplesLoss :: "string \<Rightarrow> real \<Rightarrow> real \<Rightarrow> 't \<Rightarrow> 't \<Rightarrow> 't"
  MSELoss :: "'t \<Rightarrow> 't \<Rightarrow> 't"
  BCEWithLogitsLoss :: "'t \<Rightarrow> 't \<Rightarrow> 't \<Rightarrow> 't"
  Dirichlet_sample :: "real list \<Rightarrow> int list \<Rightarrow> 'w \<Rightarrow> 't \<times> 'w"
  torch_normal :: "real \<Rightarrow> real \<Rightarrow> 't \<Rightarrow> 'w \<Rightarrow> 't \<times> 'w"
  torch_ge :: "'t \<Rightarrow> real \<Rightarrow> bool list"
  tensor_eq :: "'t \<Rightarrow> real \<Rightarrow> bool list"
  tensor_to :: "'t \<Rightarrow> string \<Rightarrow> 't"
  tensor_float :: "'t \<Rightarrow> 't"
  tensor_add :: "'t \<Rightarrow> 't \<Rightarrow> 't"
  tensor_mul :: "'t \<Rightarrow> real \<Rightarrow> 't"
  tensor_rdiv :: "real \<Rightarrow> 't \<Rightarrow> 't"
  tensor_item :: "'t \<Rightarrow> real"
  model_encode :: "'w \<Rightarrow> 't \<Rightarrow> 't \<times> 't"
  model_reparameterize :: "'t \<Rightarrow> 't \<Rightarrow> 'w \<Rightarrow> 't \<times> 'w"
  model_decoder :: "'w \<Rightarrow> 't \<Rightarrow> 't"
  model_feature_head :: "'w \<Rightarrow> 't \<Rightarrow> 't"
  optimizer_zero_grad :: "'w \<Rightarrow> 'w"
  loss_backward :: "'t \<Rightarrow> 'w \<Rightarrow> 'w"
  optimizer_step :: "'w \<Rightarrow> 'w"

text \<open>
  \<open>torch_ge t x\<close> and \<open>tensor_eq t x\<close> are the entries of the boolean tensors
  \<^verbatim>\<open>torch.ge(t, x)\<close> and \<^verbatim>\<open>t == x\<close>, in the tensor's own order. \<open>tensor_mul t c\<close> is
  \<^verbatim>\<open>t * c\<close> for a Python float \<open>c\<close>, \<open>tensor_rdiv c t\<close> is \<^verbatim>\<open>c / t\<close>, \<open>tensor_item\<close> is
  \<^verbatim>\<open>.detach().item()\<close>. \<open>load_checkpoint\<close> is \<^verbatim>\<open>torch.load\<close> followed by the two
  \<^verbatim>\<open>load_state_dict\<close> calls, \<open>loader_batches\<close> the batches one iteration over a
  \<^verbatim>\<open>DataLoader\<close> gives. \<open>load_datasets\<close> is everything \<^verbatim>\<open>get_datasets\<close> does with its
  arguments.

  \<open>Adam_parameters\<close> are the names of the parameters of the library's
  \<^verbatim>\<open>Adam.__init__\<close> after \<^verbatim>\<open>self\<close>, \<open>Adam_required\<close> those of them that have no default;
  \<open>Adam\<close> is what the constructor does once its arguments are bound. The module calls
  it with keywords only, and one of them is not a name torch knows, so the binding is
  part of the model.
\<close>

text \<open>The objects built once per trial at lines 59-66.\<close>

record 't loss_fns =
  sinkhorn_loss_fn :: "'t \<Rightarrow> 't \<Rightarrow> 't"
  reconstruction_loss_fn :: "'t \<Rightarrow> 't \<Rightarrow> 't"
  class_loss_fn :: "'t \<Rightarrow> 't \<Rightarrow> 't"
  dirichlet_distribution :: "real list"

text \<open>The local variables of one pass through a loop body (lines 70-89 and 106-121).\<close>

record 't step_locals =
  features :: 't
  posts :: 't
  eps :: 't
  logits :: 't
  feature_predictions :: 't
  sampled_dirichlet :: 't
  distribution_loss :: 't
  reconstruction_loss :: 't
  class_loss :: 't
  loss :: 't

text \<open>The accumulators of the validation pass (lines 94-102).\<close>

record accum =
  loss_accum :: real
  class_accum :: real
  dist_accum :: real
  recon_accum :: real
  tp_accum :: int
  fp_accum :: int
  tn_accum :: int
  fn_accum :: int

text \<open>A yielded report: the dict of lines 134-144, in the order of its keys.\<close>

type_synonym report = "(string \<times> real) list"

text \<open>
  How a run of the generator ends: it is exhausted (the loop over the epochs is
  done), or an exception leaves it.
\<close>

datatype outcome = StopIteration | Raised py_error

record trial_run =
  printed :: "string list"
  reports :: "report list"
  outcome :: outcome

subsection \<open>\<^verbatim>\<open>train_sinkhorn_vae\<close>: set-up (lines 24-66)\<close>

definition bert_embedding_size :: int where
  "bert_embedding_size = 768"

text \<open>Lines 27-31: the device, and what is printed.\<close>

definition select_device :: "config \<Rightarrow> bool \<Rightarrow> string \<times> string list" where
  "select_device cfg available =
     (if device cfg = ''cuda:0'' then
        (if \<not> available then (''cpu'', [''Could not find GPU, reverting to CPU training!''])
         else (device cfg, []))
      else (device cfg, []))"

text \<open>Lines 146-169, \<^verbatim>\<open>get_datasets\<close>: the arguments, and the call.\<close>

definition get_datasets_args :: "config \<Rightarrow> dataset_args" where
  "get_datasets_args cfg =
     \<lparr>lock_path = dataset_directory cfg @ ''.lock'',
      side_information_paths = dataset_side_information_file_paths cfg,
      hub_repo = ''huggingface/pytorch-transformers'',
      hub_model = ''roberta-base'',
      preprocess_device = device cfg,
      dataroot = dataset_directory cfg,
      use_context = dataset_context cfg,
      cache = True,
      validation_split = 1 / 10,
      loader_batch_size = dataset_batch_size cfg\<rparr>"

definition get_datasets ::
  "('w, 't, 'b, 'l) libs \<Rightarrow> config \<Rightarrow> 'w \<Rightarrow> ('l \<times> 'l \<times> 't) \<times> 'w" where
  "get_datasets L cfg w = load_datasets L (get_datasets_args cfg) w"

text \<open>Lines 35-44: the model's constructor arguments.\<close>

definition vae_args_of :: "config \<Rightarrow> vae_args" where
  "vae_args_of cfg =
     \<lparr>latent_dim = model_latent_dims cfg,
      input_dim = (if dataset_context cfg then bert_embedding_size * 2 else bert_embedding_size),
      feature_dim = 7,
      use_softmax = model_softmax cfg\<rparr>"

definition adam_args_of :: "config \<Rightarrow> adam_args" where
  "adam_args_of cfg =
     \<lparr>lr = adam_learning_rate cfg,
      betas = (fst (adam_betas cfg), snd (adam_betas cfg))\<rparr>"

text \<open>
  Lines 53-57: \<^verbatim>\<open>if checkpoint_dir:\<close> is false for \<^verbatim>\<open>None\<close> and for the empty string.
\<close>

definition restore_checkpoint ::
  "('w, 't, 'b, 'l) libs \<Rightarrow> string option \<Rightarrow> 'w \<Rightarrow> 'w" where
  "restore_checkpoint L checkpoint_dir w =
     (case checkpoint_dir of
        None \<Rightarrow> w
      | Some d \<Rightarrow>
          (if d = [] then w
           else load_checkpoint L (os_path_join L d ''checkpoint'') w))"

text \<open>Lines 59-66: the three loss functions and the Dirichlet prior.\<close>

definition make_loss_fns :: "('w, 't, 'b, 'l) libs \<Rightarrow> config \<Rightarrow> 't \<Rightarrow> 't loss_fns" where
  "make_loss_fns L cfg class_proportions =
     \<lparr>sinkhorn_loss_fn =
        SamplesLoss L (losses_distribution_type cfg) (losses_distribution_p cfg)
          (losses_distribution_blur cfg),
      reconstruction_loss_fn = MSELoss L,
      class_loss_fn =
        BCEWithLogitsLoss L
          (tensor_mul L (tensor_rdiv L 1 class_proportions) (losses_class_bias cfg)),
      dirichlet_distribution =
        replicate (nat (model_latent_dims cfg)) (losses_distribution_alpha cfg)\<rparr>"

subsection \<open>The training pass (lines 69-92)\<close>

definition train_step ::
  "('w, 't, 'b, 'l) libs \<Rightarrow> config \<Rightarrow> string \<Rightarrow> 't loss_fns \<Rightarrow> 'b \<Rightarrow> 'w
     \<Rightarrow> 't step_locals \<times> 'w" where
  "train_step L cfg dev fns batch w0 =
     (let features = tensor_float L (tensor_to L (batch_get L batch ''features'') dev);
          posts = tensor_float L (tensor_to L (batch_get L batch ''posts'') dev);
          (noise, w1) = torch_normal L 0 (latent_space_noise_std cfg) posts w0;
          augmented_posts = tensor_add L posts (tensor_to L noise dev);
          w2 = optimizer_zero_grad L w1;
          (mean, logvar) = model_encode L w2 augmented_posts;
          (eps, w3) = model_reparameterize L mean logvar w2;
          logits = model_decoder L w3 eps;
          feature_predictions = model_feature_head L w3 eps;
          (sample, w4) =
            Dirichlet_sample L (dirichlet_distribution fns) [training_batch_size cfg] w3;
          sampled_dirichlet = tensor_to L sample dev;
          distribution_loss = sinkhorn_loss_fn fns eps sampled_dirichlet;
          reconstruction_loss = reconstruction_loss_fn fns posts logits;
          class_loss = class_loss_fn fns feature_predictions features;
          loss =
            tensor_add L
              (tensor_add L
                (tensor_mul L class_loss (losses_class_weight cfg))
                (tensor_mul L distribution_loss (losses_distribution_weight cfg)))
              (tensor_mul L reconstruction_loss (losses_reconstruction_weight cfg));
          w5 = optimizer_step L (loss_backward L loss w4)
      in (\<lparr>features = features, posts = posts, eps = eps, logits = logits,
           feature_predictions = feature_predictions,
           sampled_dirichlet = sampled_dirichlet,
           distribution_loss = distribution_loss,
           reconstruction_loss = reconstruction_loss,
           class_loss = class_loss, loss = loss\<rparr>, w5))"

text \<open>
  \<^verbatim>\<open>for batch_num, batch in enumerate(train_loader)\<close>: the state is the library state
  and the local \<^verbatim>\<open>batch_num\<close>, which is unbound (\<open>None\<close>) until a loop binds it.
\<close>

fun train_batches ::
  "('w, 't, 'b, 'l) libs \<Rightarrow> config \<Rightarrow> string \<Rightarrow> 't loss_fns \<Rightarrow> nat \<Rightarrow> 'b list
     \<Rightarrow> 'w \<times> nat option \<Rightarrow> 'w \<times> nat option" where
  "train_batches L cfg dev fns i [] s = s"
| "train_batches L cfg dev fns i (batch # rest) s =
     train_batches L cfg dev fns (Suc i) rest
       (snd (train_step L cfg dev fns batch (fst s)), Some i)"

subsection \<open>The validation pass (lines 94-132)\<close>

definition val_step ::
  "('w, 't, 'b, 'l) libs \<Rightarrow> config \<Rightarrow> string \<Rightarrow> 't loss_fns \<Rightarrow> 'b \<Rightarrow> 'w
     \<Rightarrow> 't step_locals \<times> 'w" where
  "val_step L cfg dev fns batch w0 =
     (let features = tensor_float L (tensor_to L (batch_get L batch ''features'') dev);
          posts = tensor_float L (tensor_to L (batch_get L batch ''posts'') dev);
          (mean, logvar) = model_encode L w0 posts;
          (eps, w1) = model_reparameterize L mean logvar w0;
          logits = model_decoder L w1 eps;
          feature_predictions = model_feature_head L w1 eps;
          (sample, w2) =
            Dirichlet_sample L (dirichlet_distribution fns) [training_batch_size cfg] w1;
          sampled_dirichlet = tensor_to L sample dev;
          distribution_loss = sinkhorn_loss_fn fns eps sampled_dirichlet;
          reconstruction_loss = reconstruction_loss_fn fns posts logits;
          class_loss = class_loss_fn fns feature_predictions features;
          loss =
            tensor_add L
              (tensor_add L
                (tensor_mul L class_loss (losses_class_weight cfg))
                (tensor_mul L distribution_loss (losses_distribution_weight cfg)))
              (tensor_mul L reconstruction_loss (losses_reconstruction_weight cfg))
      in (\<lparr>features = features, posts = posts, eps = eps, logits = logits,
           feature_predictions = feature_predictions,
           sampled_dirichlet = sampled_dirichlet,
           distribution_loss = distribution_loss,
           reconstruction_loss = reconstruction_loss,
           class_loss = class_loss, loss = loss\<rparr>, w2))"

text \<open>
  Lines 128-132 on the entries of the boolean tensors. \<open>bool_eq bs x\<close> is
  \<^verbatim>\<open>binary_predictions == x\<close> (Python compares \<^verbatim>\<open>True\<close> as 1 and \<^verbatim>\<open>False\<close> as 0),
  \<open>tensor_and\<close> is \<^verbatim>\<open>&\<close>, \<open>tensor_sum\<close> is \<^verbatim>\<open>.sum().item()\<close>. Predictions and labels have
  the same shape where line 128 is reached: \<^verbatim>\<open>BCEWithLogitsLoss\<close> has already
  accepted the pair at line 119.
\<close>

definition bool_eq :: "bool list \<Rightarrow> real \<Rightarrow> bool list" where
  "bool_eq bs x = map (\<lambda>b. (if b then 1 else 0) = x) bs"

definition tensor_and :: "bool list \<Rightarrow> bool list \<Rightarrow> bool list" where
  "tensor_and xs ys = map (\<lambda>(x, y). x \<and> y) (zip xs ys)"

definition tensor_sum :: "bool list \<Rightarrow> int" where
  "tensor_sum bs = int (length (filter (\<lambda>b. b) bs))"

definition zero_accum :: accum where
  "zero_accum =
     \<lparr>loss_accum = 0, class_accum = 0, dist_accum = 0, recon_accum = 0,
      tp_accum = 0, fp_accum = 0, tn_accum = 0, fn_accum = 0\<rparr>"

definition accumulate ::
  "('w, 't, 'b, 'l) libs \<Rightarrow> config \<Rightarrow> 't step_locals \<Rightarrow> accum \<Rightarrow> accum" where
  "accumulate L cfg l a =
     (let binary_predictions = torch_ge L (feature_predictions l) (losses_class_threshold cfg)
      in \<lparr>loss_accum = loss_accum a + tensor_item L (loss l),
          class_accum = class_accum a + tensor_item L (class_loss l),
          dist_accum = dist_accum a + tensor_item L (distribution_loss l),
          recon_accum = recon_accum a + tensor_item L (reconstruction_loss l),
          tp_accum = tp_accum a +
            tensor_sum (tensor_and (bool_eq binary_predictions 1) (tensor_eq L (features l) 1)),
          fp_accum = fp_accum a +
            tensor_sum (tensor_and (bool_eq binary_predictions 1) (tensor_eq L (features l) 0)),
          tn_accum = tn_accum a +
            tensor_sum (tensor_and (bool_eq binary_predictions 0) (tensor_eq L (features l) 0)),
          fn_accum = fn_accum a +
            tensor_sum (tensor_and (bool_eq binary_predictions 0) (tensor_eq L (features l) 1))\<rparr>)"

fun val_batches ::
  "('w, 't, 'b, 'l) libs \<Rightarrow> config \<Rightarrow> string \<Rightarrow> 't loss_fns \<Rightarrow> nat \<Rightarrow> 'b list
     \<Rightarrow> accum \<times> 'w \<times> nat option \<Rightarrow> accum \<times> 'w \<times> nat option" where
  "val_batches L cfg dev fns i [] s = s"
| "val_batches L cfg dev fns i (batch # rest) (a, w, bn) =
     (case val_step L cfg dev fns batch w of
        (l, w') \<Rightarrow> val_batches L cfg dev fns (Suc i) rest (accumulate L cfg l a, w', Some i))"

subsection \<open>The report (lines 134-144)\<close>

text \<open>
  Python's \<^verbatim>\<open>/\<close>: true division, which raises \<^verbatim>\<open>ZeroDivisionError\<close> on a zero divisor
  (HOL's \<open>x / 0\<close> is \<open>0\<close>, so the check is written out).
\<close>

definition py_truediv :: "real \<Rightarrow> real \<Rightarrow> py_error + real" where
  "py_truediv x y = (if y = 0 then Inl ZeroDivisionError else Inr (x / y))"

text \<open>A dict display evaluates its values in order; the first exception leaves it.\<close>

fun dict_display :: "(string \<times> (py_error + real)) list \<Rightarrow> py_error + report" where
  "dict_display [] = Inr []"
| "dict_display ((k, v) # kvs) =
     (case v of
        Inl e \<Rightarrow> Inl e
      | Inr x \<Rightarrow> (case dict_display kvs of Inl e \<Rightarrow> Inl e | Inr r \<Rightarrow> Inr ((k, x) # r)))"

definition epoch_report :: "accum \<Rightarrow> nat \<Rightarrow> py_error + report" where
  "epoch_report a batch_num =
     dict_display
       [(''total_loss'', py_truediv (loss_accum a) (real batch_num + 1)),
        (''class_loss'', py_truediv (class_accum a) (real batch_num + 1)),
        (''dist_loss'', py_truediv (dist_accum a) (real batch_num + 1)),
        (''recon_loss'', py_truediv (recon_accum a) (real batch_num + 1)),
        (''precision'',
           py_truediv (of_int (tp_accum a)) (of_int (tp_accum a + fp_accum a))),
        (''recall'',
           py_truediv (of_int (tp_accum a)) (of_int (tp_accum a + fn_accum a))),
        (''accuracy'',
           py_truediv (of_int (tp_accum a + tn_accum a))
             (of_int (tp_accum a + fn_accum a + tn_accum a + fn_accum a))),
        (''specificity'',
           py_truediv (of_int (tn_accum a)) (of_int (tn_accum a + fp_accum a))),
        (''f1_score'', py_truediv (of_int (tp_accum a)) (of_int (tp_accum a) + 1 / 2))]"

text \<open>
  The first value of the dict reads \<^verbatim>\<open>batch_num\<close>: where no loop has bound it yet,
  that raises \<^verbatim>\<open>UnboundLocalError\<close>.
\<close>

definition yield_value :: "accum \<Rightarrow> nat option \<Rightarrow> py_error + report" where
  "yield_value a bn =
     (case bn of None \<Rightarrow> Inl UnboundLocalError | Some batch_num \<Rightarrow> epoch_report a batch_num)"

subsection \<open>The epochs (lines 68-144)\<close>

definition run_epoch ::
  "('w, 't, 'b, 'l) libs \<Rightarrow> config \<Rightarrow> string \<Rightarrow> 't loss_fns \<Rightarrow> 'l \<Rightarrow> 'l
     \<Rightarrow> 'w \<times> nat option \<Rightarrow> (py_error + report) \<times> ('w \<times> nat option)" where
  "run_epoch L cfg dev fns train_loader val_loader s =
     (case loader_batches L train_loader (fst s) of
        (train, w1) \<Rightarrow>
          (case train_batches L cfg dev fns 0 train (w1, snd s) of
             (w2, bn2) \<Rightarrow>
               (case loader_batches L val_loader w2 of
                  (val, w3) \<Rightarrow>
                    (case val_batches L cfg dev fns 0 val (zero_accum, w3, bn2) of
                       (a, w4, bn3) \<Rightarrow> (yield_value a bn3, (w4, bn3))))))"

text \<open>
  \<^verbatim>\<open>for epoch_num in range(max_epochs)\<close> with the \<^verbatim>\<open>yield\<close> at the end of the body: the
  reports of a run of the generator to its end, and how it ends.
\<close>

fun epochs ::
  "('s \<Rightarrow> (py_error + report) \<times> 's) \<Rightarrow> nat \<Rightarrow> 's \<Rightarrow> report list \<times> outcome" where
  "epochs body 0 s = ([], StopIteration)"
| "epochs body (Suc n) s =
     (case body s of
        (Inl e, s') \<Rightarrow> ([], Raised e)
      | (Inr r, s') \<Rightarrow> (case epochs body n s' of (rs, out) \<Rightarrow> (r # rs, out)))"

text \<open>
  Lines 47-51: \<^verbatim>\<open>Adam(parameters = ..., lr = ..., betas = ...)\<close>. A Python call with
  keywords only raises \<^verbatim>\<open>TypeError\<close> unless every keyword names a parameter of the
  callee and every parameter without a default gets an argument.
\<close>

definition adam_keywords :: "string list" where
  "adam_keywords = [''parameters'', ''lr'', ''betas'']"

definition keywords_bind :: "string list \<Rightarrow> string list \<Rightarrow> string list \<Rightarrow> bool" where
  "keywords_bind parameters required given \<longleftrightarrow>
     set given \<subseteq> set parameters \<and> set required \<subseteq> set given"

definition make_optimizer ::
  "('w, 't, 'b, 'l) libs \<Rightarrow> config \<Rightarrow> 'w \<Rightarrow> py_error + 'w" where
  "make_optimizer L cfg w =
     (if keywords_bind (Adam_parameters L) (Adam_required L) adam_keywords
      then Inr (Adam L (adam_args_of cfg) w)
      else Inl TypeError)"

text \<open>
  Lines 33-144 for a given value of the local \<^verbatim>\<open>device\<close>. An exception before the
  first \<^verbatim>\<open>yield\<close> leaves the generator with no report.
\<close>

definition train_on ::
  "('w, 't, 'b, 'l) libs \<Rightarrow> config \<Rightarrow> string \<Rightarrow> string option \<Rightarrow> 'w
     \<Rightarrow> report list \<times> outcome" where
  "train_on L cfg dev checkpoint_dir w0 =
     (case get_datasets L cfg w0 of
        ((train_loader, val_loader, class_proportions), w1) \<Rightarrow>
          (let w2 = VAE L (vae_args_of cfg) w1;
               w3 = model_to L dev w2
           in case make_optimizer L cfg w3 of
                Inl e \<Rightarrow> ([], Raised e)
              | Inr w4 \<Rightarrow>
                  (let w5 = restore_checkpoint L checkpoint_dir w4;
                       fns = make_loss_fns L cfg class_proportions
                   in epochs (run_epoch L cfg dev fns train_loader val_loader)
                        (nat (training_max_epochs cfg)) (w5, None))))"

definition train_sinkhorn_vae ::
  "('w, 't, 'b, 'l) libs \<Rightarrow> config \<Rightarrow> string option \<Rightarrow> 'w \<Rightarrow> trial_run" where
  "train_sinkhorn_vae L cfg checkpoint_dir w0 =
     (case select_device cfg (cuda_is_available L) of
        (dev, out) \<Rightarrow>
          (case train_on L cfg dev checkpoint_dir w0 of
             (rs, how) \<Rightarrow> \<lparr>printed = out, reports = rs, outcome = how\<rparr>))"

subsection \<open>\<^verbatim>\<open>run_optuna_tune\<close> (lines 171-185)\<close>

datatype search_algorithm = OptunaSearch | ConcurrencyLimiter search_algorithm int

datatype trial_scheduler = AsyncHyperBandScheduler

datatype trainable = Train_sinkhorn_vae

text \<open>
  The function builds the search algorithm and the scheduler and calls \<^verbatim>\<open>tune.run\<close>
  once; its result is not used. What the function does is that call: the record of
  its arguments. \<open>'c\<close> is the search space imported from \<^verbatim>\<open>training.search_space\<close>.
\<close>

record 'c tune_run_call =
  trainable :: trainable
  metric :: string
  mode :: string
  search_alg :: search_algorithm
  scheduler :: trial_scheduler
  num_samples :: int
  search_space :: 'c
  local_dir :: string
  fail_fast :: bool

definition run_optuna_tune :: "'c \<Rightarrow> bool \<Rightarrow> 'c tune_run_call" where
  "run_optuna_tune space smoke_test =
     (let algorithm = OptunaSearch;
          algorithm = ConcurrencyLimiter algorithm 6;
          scheduler = AsyncHyperBandScheduler
      in \<lparr>trainable = Train_sinkhorn_vae,
          metric = ''total_loss'',
          mode = ''min'',
          search_alg = algorithm,
          scheduler = scheduler,
          num_samples = (if smoke_test then 2 else 20),
          search_space = space,
          local_dir = ''results'',
          fail_fast = True\<rparr>)"

subsection \<open>Names used in the statements\<close>

text \<open>The keys of the dict of lines 134-144, in its order.\<close>

definition report_keys :: "string list" where
  "report_keys =
     [''total_loss'', ''class_loss'', ''dist_loss'', ''recon_loss'',
      ''precision'', ''recall'', ''accuracy'', ''specificity'', ''f1_score'']"

text \<open>
  The textbook accuracy and F1 score of a confusion matrix, to compare the values of
  lines 141 and 143 with.
\<close>

definition standard_accuracy :: "accum \<Rightarrow> real" where
  "standard_accuracy a =
     of_int (tp_accum a + tn_accum a)
       / of_int (tp_accum a + tn_accum a + fp_accum a + fn_accum a)"

definition standard_f1 :: "accum \<Rightarrow> real" where
  "standard_f1 a =
     of_int (tp_accum a) / (of_int (tp_accum a) + of_int (fp_accum a + fn_accum a) / 2)"

subsection \<open>A concrete instance\<close>

text \<open>
  The parameters of \<^verbatim>\<open>torch.optim.Adam.__init__\<close> after \<^verbatim>\<open>self\<close>: the first is
  \<^verbatim>\<open>params\<close>, the only one without a default. (Later versions of torch add
  parameters at the end; none is named \<^verbatim>\<open>parameters\<close>.)
\<close>

definition torch_Adam_parameters :: "string list" where
  "torch_Adam_parameters =
     [''params'', ''lr'', ''betas'', ''eps'', ''weight_decay'', ''amsgrad'']"

definition torch_Adam_required :: "string list" where
  "torch_Adam_required = [''params'']"

text \<open>
  Library calls simple enough to compute with, for running the loop on concrete
  data: a tensor is the list of its entries, a batch the pair of its labels and its
  posts, a loader the list of its batches. The model is the identity (a post's
  prediction is the post), the three loss functions are constant (the distribution
  loss 1, the reconstruction loss 2, the class loss 4), a Dirichlet sample is the
  concentration vector itself, and the library state counts the draws and the
  optimizer steps. \<open>example_libs\<close> has the \<^verbatim>\<open>Adam\<close> of torch; \<open>lenient_libs\<close> differs from
  it in an \<^verbatim>\<open>Adam\<close> whose parameters are named as the module's keywords are, to run
  the loop that follows the set-up.
\<close>

type_synonym example_batch = "real list \<times> real list"

definition example_libs ::
  "example_batch list \<Rightarrow> example_batch list
     \<Rightarrow> (nat, real list, example_batch, example_batch list) libs" where
  "example_libs train val =
     \<lparr>cuda_is_available = False,
      load_datasets = (\<lambda>args w. ((train, val, [1 / 2]), w)),
      loader_batches = (\<lambda>l w. (l, w)),
      batch_get = (\<lambda>b k. if k = ''features'' then fst b else snd b),
      VAE = (\<lambda>args w. w),
      model_to = (\<lambda>d w. w),
      Adam_parameters = torch_Adam_parameters,
      Adam_required = torch_Adam_required,
      Adam = (\<lambda>args w. w),
      os_path_join = (\<lambda>a b. a @ ''/'' @ b),
      load_checkpoint = (\<lambda>p w. w),
      SamplesLoss = (\<lambda>ty p blur x y. [1]),
      MSELoss = (\<lambda>x y. [2]),
      BCEWithLogitsLoss = (\<lambda>pw x y. [4]),
      Dirichlet_sample = (\<lambda>conc shape w. (conc, Suc w)),
      torch_normal = (\<lambda>m s t w. (map (\<lambda>x. m) t, Suc w)),
      torch_ge = (\<lambda>t x. map (\<lambda>v. x \<le> v) t),
      tensor_eq = (\<lambda>t x. map (\<lambda>v. v = x) t),
      tensor_to = (\<lambda>t d. t),
      tensor_float = (\<lambda>t. t),
      tensor_add = (\<lambda>s t. map (\<lambda>(x, y). x + y) (zip s t)),
      tensor_mul = (\<lambda>t c. map (\<lambda>v. v * c) t),
      tensor_rdiv = (\<lambda>c t. map (\<lambda>v. c / v) t),
      tensor_item = (\<lambda>t. case t of [] \<Rightarrow> 0 | v # vs \<Rightarrow> v),
      model_encode = (\<lambda>w t. (t, t)),
      model_reparameterize = (\<lambda>m lv w. (m, Suc w)),
      model_decoder = (\<lambda>w t. t),
      model_feature_head = (\<lambda>w t. t),
      optimizer_zero_grad = (\<lambda>w. w),
      loss_backward = (\<lambda>l w. w),
      optimizer_step = (\<lambda>w. Suc w)\<rparr>"

definition lenient_libs ::
  "example_batch list \<Rightarrow> example_batch list
     \<Rightarrow> (nat, real list, example_batch, example_batch list) libs" where
  "lenient_libs train val =
     (example_libs train val)
       \<lparr>Adam_parameters := [''parameters'', ''lr'', ''betas''],
        Adam_required := [''parameters'']\<rparr>"

definition example_config :: config where
  "example_config =
     \<lparr>device = ''cuda:0'',
      dataset_context = False,
      dataset_directory = ''data'',
      dataset_side_information_file_paths = [],
      dataset_batch_size = 4,
      model_latent_dims = 2,
      model_softmax = True,
      adam_learning_rate = 1 / 1000,
      adam_betas = (9 / 10, 999 / 1000),
      losses_distribution_type = ''sinkhorn'',
      losses_distribution_p = 2,
      losses_distribution_blur = 1 / 20,
      losses_distribution_alpha = 1 / 2,
      losses_distribution_weight = 3,
      losses_class_bias = 1,
      losses_class_weight = 2,
      losses_class_threshold = 1 / 2,
      losses_reconstruction_weight = 5,
      training_max_epochs = 2,
      training_batch_size = 4,
      latent_space_noise_std = 1 / 10\<rparr>"

text \<open>
  Two data sets. In both, training has one batch of two posts. \<open>mixed_val\<close> is one
  validation batch with one true positive, one false positive, one true negative and
  one false negative at the threshold \<open>1 / 2\<close>; \<open>negative_val\<close> is one validation
  batch whose only entry is labelled 1 and predicted 0, so no prediction is positive.
\<close>

definition example_train :: "example_batch list" where
  "example_train = [([1, 0], [1, 0])]"

definition mixed_val :: "example_batch list" where
  "mixed_val = [([1, 0, 0, 1], [1, 1, 0, 0])]"

definition negative_val :: "example_batch list" where
  "negative_val = [([1], [0])]"

definition skewed_accum :: accum where
  "skewed_accum =
     \<lparr>loss_accum = 21, class_accum = 4, dist_accum = 1, recon_accum = 2,
      tp_accum = 1, fp_accum = 2, tn_accum = 1, fn_accum = 1\<rparr>"

definition no_positive_accum :: accum where
  "no_positive_accum =
     \<lparr>loss_accum = 21, class_accum = 4, dist_accum = 1, recon_accum = 2,
      tp_accum = 0, fp_accum = 0, tn_accum = 0, fn_accum = 1\<rparr>"

section \<open>Properties\<close>

subsection \<open>Arithmetic of the report\<close>

lemma half_int_nonzero: "(of_int k :: real) + 1 / 2 \<noteq> 0"
proof
  assume "(of_int k :: real) + 1 / 2 = 0"
  then have "(of_int (2 * k + 1) :: real) = 0" by simp
  then have "2 * k + 1 = 0" using of_int_eq_0_iff by blast
  then show False by presburger
qed

lemma batch_count_nonzero: "real n + 1 \<noteq> 0"
  by (metis add.commute of_nat_Suc of_nat_neq_0)

text \<open>
  The dict of lines 134-144 in closed form: the divisors that can be zero are the
  four sums of counts; \<open>batch_num + 1\<close> and \<open>tp_accum + 0.5\<close> never are.
\<close>

lemma epoch_report_eq:
  "epoch_report a n =
     (if tp_accum a + fp_accum a = 0 \<or> tp_accum a + fn_accum a = 0 \<or>
         tp_accum a + fn_accum a + tn_accum a + fn_accum a = 0 \<or> tn_accum a + fp_accum a = 0
      then Inl ZeroDivisionError
      else Inr
       [(''total_loss'', loss_accum a / (real n + 1)),
        (''class_loss'', class_accum a / (real n + 1)),
        (''dist_loss'', dist_accum a / (real n + 1)),
        (''recon_loss'', recon_accum a / (real n + 1)),
        (''precision'', of_int (tp_accum a) / of_int (tp_accum a + fp_accum a)),
        (''recall'', of_int (tp_accum a) / of_int (tp_accum a + fn_accum a)),
        (''accuracy'', of_int (tp_accum a + tn_accum a)
             / of_int (tp_accum a + fn_accum a + tn_accum a + fn_accum a)),
        (''specificity'', of_int (tn_accum a) / of_int (tn_accum a + fp_accum a)),
        (''f1_score'', of_int (tp_accum a) / (of_int (tp_accum a) + 1 / 2))])"
  using half_int_nonzero [of "tp_accum a"] batch_count_nonzero [of n]
  unfolding epoch_report_def py_truediv_def
  by (simp del: of_int_add)

lemma epoch_report_keys: "epoch_report a n = Inr r \<Longrightarrow> map fst r = report_keys"
  by (auto simp add: epoch_report_eq report_keys_def split: if_splits)

lemma yield_value_keys: "yield_value a bn = Inr r \<Longrightarrow> map fst r = report_keys"
  by (auto simp add: yield_value_def epoch_report_keys split: option.splits)

lemma yield_value_bound: "yield_value a (Some n) = epoch_report a n"
  by (simp add: yield_value_def)

lemma yield_value_epoch_report:
  "yield_value a bn = Inr r \<Longrightarrow> \<exists>n. bn = Some n \<and> epoch_report a n = Inr r"
  by (cases bn) (simp_all add: yield_value_def)

lemma run_epoch_keys:
  "fst (run_epoch L cfg dev fns trn vld s) = Inr r \<Longrightarrow> map fst r = report_keys"
  by (auto simp add: run_epoch_def yield_value_keys split: prod.splits)

subsection \<open>The loop over the epochs\<close>

lemma epochs_length_le: "length (fst (epochs body n s)) \<le> n"
proof (induction n arbitrary: s)
  case 0
  show ?case by simp
next
  case (Suc n)
  obtain res s' where b: "body s = (res, s')" by (cases "body s")
  show ?case
  proof (cases res)
    case (Inl e)
    with b show ?thesis by simp
  next
    case (Inr r)
    obtain rs out where e: "epochs body n s' = (rs, out)" by (cases "epochs body n s'")
    have "length rs \<le> n" using Suc.IH [of s'] e by simp
    with b Inr e show ?thesis by simp
  qed
qed

lemma epochs_stop_iff:
  "snd (epochs body n s) = StopIteration \<longleftrightarrow> length (fst (epochs body n s)) = n"
proof (induction n arbitrary: s)
  case 0
  show ?case by simp
next
  case (Suc n)
  obtain res s' where b: "body s = (res, s')" by (cases "body s")
  show ?case
  proof (cases res)
    case (Inl e)
    with b show ?thesis by simp
  next
    case (Inr r)
    obtain rs out where e: "epochs body n s' = (rs, out)" by (cases "epochs body n s'")
    have "out = StopIteration \<longleftrightarrow> length rs = n" using Suc.IH [of s'] e by simp
    with b Inr e show ?thesis by simp
  qed
qed

lemma epochs_list_all:
  assumes "\<And>s r. fst (body s) = Inr r \<Longrightarrow> P r"
  shows "list_all P (fst (epochs body n s))"
proof (induction n arbitrary: s)
  case 0
  show ?case by simp
next
  case (Suc n)
  obtain res s' where b: "body s = (res, s')" by (cases "body s")
  show ?case
  proof (cases res)
    case (Inl e)
    with b show ?thesis by simp
  next
    case (Inr r)
    obtain rs out where e: "epochs body n s' = (rs, out)" by (cases "epochs body n s'")
    have "list_all P rs" using Suc.IH [of s'] e by simp
    moreover have "P r" using assms [of s r] b Inr by simp
    ultimately show ?thesis using b Inr e by simp
  qed
qed

lemma epochs_raise:
  "fst (body s) = Inl e \<Longrightarrow> epochs body (Suc n) s = ([], Raised e)"
  by (cases "body s") simp

text \<open>
  The reports are the reports of the successive epochs: the \<open>i\<close>-th is the one the
  body computes in the state \<open>i\<close> epochs have left; the loop is exhausted when all
  \<open>n\<close> reports can be computed, and an exception that ends it is the one of the
  first epoch whose report cannot.
\<close>

lemma state_after_Suc:
  "body s = (res, s') \<Longrightarrow> ((snd \<circ> body) ^^ Suc k) s = ((snd \<circ> body) ^^ k) s'"
  by (simp add: funpow_swap1)

lemma epochs_nth:
  "i < length (fst (epochs body n s)) \<Longrightarrow>
     fst (body (((snd \<circ> body) ^^ i) s)) = Inr (fst (epochs body n s) ! i)"
proof (induction n arbitrary: s i)
  case 0
  then show ?case by simp
next
  case (Suc n)
  obtain res s' where b: "body s = (res, s')" by (cases "body s")
  have st: "((snd \<circ> body) ^^ Suc k) s = ((snd \<circ> body) ^^ k) s'" for k
    using b by (rule state_after_Suc)
  show ?case
  proof (cases res)
    case (Inl e)
    with b Suc.prems show ?thesis by simp
  next
    case (Inr r)
    obtain rs out where e: "epochs body n s' = (rs, out)" by (cases "epochs body n s'")
    have all: "fst (epochs body (Suc n) s) = r # rs" using b Inr e by simp
    show ?thesis
    proof (cases i)
      case 0
      with b Inr all show ?thesis by simp
    next
      case (Suc k)
      with Suc.prems all e have "k < length (fst (epochs body n s'))" by simp
      then have "fst (body (((snd \<circ> body) ^^ k) s')) = Inr (fst (epochs body n s') ! k)"
        by (rule Suc.IH)
      then have "fst (body (((snd \<circ> body) ^^ Suc k) s)) = Inr (rs ! k)"
        using e by (simp only: st fst_conv)
      then show ?thesis using Suc all by (simp only: nth_Cons_Suc)
    qed
  qed
qed

lemma epochs_complete:
  "(\<And>i. i < n \<Longrightarrow> \<exists>r. fst (body (((snd \<circ> body) ^^ i) s)) = Inr r) \<Longrightarrow>
     length (fst (epochs body n s)) = n \<and> snd (epochs body n s) = StopIteration"
proof (induction n arbitrary: s)
  case 0
  show ?case by simp
next
  case (Suc n)
  obtain res s' where b: "body s = (res, s')" by (cases "body s")
  have st: "((snd \<circ> body) ^^ Suc k) s = ((snd \<circ> body) ^^ k) s'" for k
    using b by (rule state_after_Suc)
  from Suc.prems [of 0] b obtain r where r: "res = Inr r" by auto
  obtain rs out where e: "epochs body n s' = (rs, out)" by (cases "epochs body n s'")
  have "\<exists>q. fst (body (((snd \<circ> body) ^^ i) s')) = Inr q" if "i < n" for i
  proof -
    from that have "Suc i < Suc n" by simp
    then have "\<exists>q. fst (body (((snd \<circ> body) ^^ Suc i) s)) = Inr q"
      by (rule Suc.prems)
    then show ?thesis by (simp only: st)
  qed
  then have "length (fst (epochs body n s')) = n \<and> snd (epochs body n s') = StopIteration"
    by (rule Suc.IH)
  with b r e show ?case by simp
qed

lemma epochs_raised:
  "snd (epochs body n s) = Raised e \<Longrightarrow>
     fst (body (((snd \<circ> body) ^^ length (fst (epochs body n s))) s)) = Inl e"
proof (induction n arbitrary: s)
  case 0
  then show ?case by simp
next
  case (Suc n)
  obtain res s' where b: "body s = (res, s')" by (cases "body s")
  have st: "((snd \<circ> body) ^^ Suc k) s = ((snd \<circ> body) ^^ k) s'" for k
    using b by (rule state_after_Suc)
  show ?case
  proof (cases res)
    case (Inl e')
    with b Suc.prems show ?thesis by simp
  next
    case (Inr r)
    obtain rs out where e: "epochs body n s' = (rs, out)" by (cases "epochs body n s'")
    have all: "fst (epochs body (Suc n) s) = r # rs" using b Inr e by simp
    from b Inr e Suc.prems have "snd (epochs body n s') = Raised e" by simp
    then have "fst (body (((snd \<circ> body) ^^ length (fst (epochs body n s'))) s')) = Inl e"
      by (rule Suc.IH)
    then have "fst (body (((snd \<circ> body) ^^ Suc (length rs)) s)) = Inl e"
      using e by (simp only: st fst_conv)
    then show ?thesis by (simp only: all length_Cons)
  qed
qed

subsection \<open>The trial as a whole\<close>

lemma make_optimizer_rejects:
  "''parameters'' \<notin> set (Adam_parameters L) \<Longrightarrow> make_optimizer L cfg w = Inl TypeError"
  by (simp add: make_optimizer_def keywords_bind_def adam_keywords_def)

lemma make_optimizer_cases:
  "make_optimizer L cfg w = Inl TypeError \<or> make_optimizer L cfg w = Inr (Adam L (adam_args_of cfg) w)"
  by (simp add: make_optimizer_def)

lemma train_on_unfold:
  "(case get_datasets L cfg w of
      ((trn, vld, cp), w1) \<Rightarrow>
        train_on L cfg dev ck w =
          (case make_optimizer L cfg (model_to L dev (VAE L (vae_args_of cfg) w1)) of
             Inl e \<Rightarrow> ([], Raised e)
           | Inr w4 \<Rightarrow>
               epochs (run_epoch L cfg dev (make_loss_fns L cfg cp) trn vld)
                 (nat (training_max_epochs cfg)) (restore_checkpoint L ck w4, None)))"
  by (simp add: train_on_def Let_def split: prod.splits sum.splits)

lemma train_on_cases:
  "train_on L cfg dev ck w = ([], Raised TypeError) \<or>
   (\<exists>trn vld cp w'. train_on L cfg dev ck w =
      epochs (run_epoch L cfg dev (make_loss_fns L cfg cp) trn vld)
        (nat (training_max_epochs cfg)) (w', None))"
proof -
  obtain trn vld cp w1 where g: "get_datasets L cfg w = ((trn, vld, cp), w1)"
    by (metis surj_pair)
  let ?w3 = "model_to L dev (VAE L (vae_args_of cfg) w1)"
  from make_optimizer_cases [of L cfg ?w3] show ?thesis
  proof
    assume "make_optimizer L cfg ?w3 = Inl TypeError"
    with g have "train_on L cfg dev ck w = ([], Raised TypeError)"
      by (simp add: train_on_def)
    then show ?thesis ..
  next
    assume "make_optimizer L cfg ?w3 = Inr (Adam L (adam_args_of cfg) ?w3)"
    with g have "train_on L cfg dev ck w =
        epochs (run_epoch L cfg dev (make_loss_fns L cfg cp) trn vld)
          (nat (training_max_epochs cfg))
          (restore_checkpoint L ck (Adam L (adam_args_of cfg) ?w3), None)"
      by (simp add: train_on_def)
    then show ?thesis by blast
  qed
qed

text \<open>
  With the \<^verbatim>\<open>Adam\<close> of torch, or any \<^verbatim>\<open>Adam\<close> that has no parameter named
  \<^verbatim>\<open>parameters\<close>, line 47 raises before the first epoch, whatever the configuration.
\<close>

lemma train_on_type_error:
  assumes "''parameters'' \<notin> set (Adam_parameters L)"
  shows "train_on L cfg dev ck w = ([], Raised TypeError)"
proof -
  obtain trn vld cp w1 where g: "get_datasets L cfg w = ((trn, vld, cp), w1)"
    by (metis surj_pair)
  then show ?thesis
    by (simp add: train_on_def make_optimizer_rejects [OF assms])
qed

lemma train_on_length: "length (fst (train_on L cfg dev ck w)) \<le> nat (training_max_epochs cfg)"
  using train_on_cases [of L cfg dev ck w] epochs_length_le
  by (metis fst_conv le0 list.size(3))

lemma train_on_keys: "list_all (\<lambda>r. map fst r = report_keys) (fst (train_on L cfg dev ck w))"
  using train_on_cases [of L cfg dev ck w]
proof
  assume "train_on L cfg dev ck w = ([], Raised TypeError)"
  then show ?thesis by simp
next
  assume "\<exists>trn vld cp w'. train_on L cfg dev ck w =
      epochs (run_epoch L cfg dev (make_loss_fns L cfg cp) trn vld)
        (nat (training_max_epochs cfg)) (w', None)"
  then obtain trn vld cp w' where
    "train_on L cfg dev ck w =
      epochs (run_epoch L cfg dev (make_loss_fns L cfg cp) trn vld)
        (nat (training_max_epochs cfg)) (w', None)"
    by blast
  moreover have "list_all (\<lambda>r. map fst r = report_keys)
      (fst (epochs (run_epoch L cfg dev (make_loss_fns L cfg cp) trn vld)
        (nat (training_max_epochs cfg)) (w', None)))"
    by (rule epochs_list_all) (erule run_epoch_keys)
  ultimately show ?thesis by simp
qed

lemma train_sinkhorn_vae_eq:
  "train_sinkhorn_vae L cfg ck w =
     \<lparr>printed = snd (select_device cfg (cuda_is_available L)),
      reports = fst (train_on L cfg (fst (select_device cfg (cuda_is_available L))) ck w),
      outcome = snd (train_on L cfg (fst (select_device cfg (cuda_is_available L))) ck w)\<rparr>"
  by (simp add: train_sinkhorn_vae_def split: prod.splits)

subsection \<open>The loop bodies\<close>

lemma train_step_loss:
  "loss (fst (train_step L cfg dev fns batch w)) =
     tensor_add L
       (tensor_add L
         (tensor_mul L (class_loss (fst (train_step L cfg dev fns batch w)))
            (losses_class_weight cfg))
         (tensor_mul L (distribution_loss (fst (train_step L cfg dev fns batch w)))
            (losses_distribution_weight cfg)))
       (tensor_mul L (reconstruction_loss (fst (train_step L cfg dev fns batch w)))
          (losses_reconstruction_weight cfg))"
  by (simp add: train_step_def Let_def split: prod.splits)

lemma val_step_loss:
  "loss (fst (val_step L cfg dev fns batch w)) =
     tensor_add L
       (tensor_add L
         (tensor_mul L (class_loss (fst (val_step L cfg dev fns batch w)))
            (losses_class_weight cfg))
         (tensor_mul L (distribution_loss (fst (val_step L cfg dev fns batch w)))
            (losses_distribution_weight cfg)))
       (tensor_mul L (reconstruction_loss (fst (val_step L cfg dev fns batch w)))
          (losses_reconstruction_weight cfg))"
  by (simp add: val_step_def Let_def split: prod.splits)

lemma train_step_backward:
  "\<exists>w'. snd (train_step L cfg dev fns batch w) =
     optimizer_step L (loss_backward L (loss (fst (train_step L cfg dev fns batch w))) w')"
  by (auto simp add: train_step_def Let_def split: prod.splits)

lemma accumulate_loss:
  "loss_accum (accumulate L cfg l a) = loss_accum a + tensor_item L (loss l)"
  by (simp add: accumulate_def Let_def)

lemma train_step_distribution_loss:
  "distribution_loss (fst (train_step L cfg dev fns batch w)) =
     sinkhorn_loss_fn fns (eps (fst (train_step L cfg dev fns batch w)))
       (sampled_dirichlet (fst (train_step L cfg dev fns batch w)))"
  by (simp add: train_step_def Let_def split: prod.splits)

lemma val_step_distribution_loss:
  "distribution_loss (fst (val_step L cfg dev fns batch w)) =
     sinkhorn_loss_fn fns (eps (fst (val_step L cfg dev fns batch w)))
       (sampled_dirichlet (fst (val_step L cfg dev fns batch w)))"
  by (simp add: val_step_def Let_def split: prod.splits)

lemma train_step_sampled:
  "\<exists>w'. sampled_dirichlet (fst (train_step L cfg dev fns batch w)) =
     tensor_to L
       (fst (Dirichlet_sample L (dirichlet_distribution fns) [training_batch_size cfg] w')) dev"
  by (simp add: train_step_def Let_def split: prod.splits) (metis fst_conv)

lemma val_step_sampled:
  "\<exists>w'. sampled_dirichlet (fst (val_step L cfg dev fns batch w)) =
     tensor_to L
       (fst (Dirichlet_sample L (dirichlet_distribution fns) [training_batch_size cfg] w')) dev"
  by (simp add: val_step_def Let_def split: prod.splits) (metis fst_conv)

lemma train_step_eps:
  "\<exists>x w1 w2. eps (fst (train_step L cfg dev fns batch w)) =
     fst (model_reparameterize L (fst (model_encode L w1 x)) (snd (model_encode L w1 x)) w2)"
  by (simp add: train_step_def Let_def split: prod.splits) (metis fst_conv snd_conv)

lemma val_step_eps:
  "\<exists>w2. eps (fst (val_step L cfg dev fns batch w)) =
     fst (model_reparameterize L
       (fst (model_encode L w (tensor_float L (tensor_to L (batch_get L batch ''posts'') dev))))
       (snd (model_encode L w (tensor_float L (tensor_to L (batch_get L batch ''posts'') dev))))
       w2)"
  by (simp add: val_step_def Let_def split: prod.splits) (metis fst_conv)

lemma train_step_class_loss:
  "class_loss (fst (train_step L cfg dev fns batch w)) =
     class_loss_fn fns (feature_predictions (fst (train_step L cfg dev fns batch w)))
       (features (fst (train_step L cfg dev fns batch w)))"
  by (simp add: train_step_def Let_def split: prod.splits)

lemma val_step_class_loss:
  "class_loss (fst (val_step L cfg dev fns batch w)) =
     class_loss_fn fns (feature_predictions (fst (val_step L cfg dev fns batch w)))
       (features (fst (val_step L cfg dev fns batch w)))"
  by (simp add: val_step_def Let_def split: prod.splits)

lemma train_step_features:
  "features (fst (train_step L cfg dev fns batch w)) =
     tensor_float L (tensor_to L (batch_get L batch ''features'') dev)"
  by (simp add: train_step_def Let_def split: prod.splits)

lemma val_step_features:
  "features (fst (val_step L cfg dev fns batch w)) =
     tensor_float L (tensor_to L (batch_get L batch ''features'') dev)"
  by (simp add: val_step_def Let_def split: prod.splits)



lemma train_step_predictions:
  "\<exists>w'. feature_predictions (fst (train_step L cfg dev fns batch w)) =
     model_feature_head L w' (eps (fst (train_step L cfg dev fns batch w)))"
  by (simp add: train_step_def Let_def split: prod.splits) blast

lemma val_step_predictions:
  "\<exists>w'. feature_predictions (fst (val_step L cfg dev fns batch w)) =
     model_feature_head L w' (eps (fst (val_step L cfg dev fns batch w)))"
  by (simp add: val_step_def Let_def split: prod.splits) blast

subsection \<open>The concrete instance, run\<close>

lemmas example_simps =
  train_sinkhorn_vae_def train_on_def get_datasets_def run_epoch_def train_step_def val_step_def
  accumulate_def yield_value_def epoch_report_eq make_loss_fns_def restore_checkpoint_def
  make_optimizer_def keywords_bind_def adam_keywords_def
  select_device_def zero_accum_def bool_eq_def tensor_and_def tensor_sum_def
  example_libs_def lenient_libs_def torch_Adam_parameters_def torch_Adam_required_def
  example_config_def example_train_def mixed_val_def negative_val_def
  Let_def eval_nat_numeral

text \<open>
  With the \<^verbatim>\<open>Adam\<close> of torch the trial prints the notice, sets up the data and the
  model, and raises at line 47.
\<close>

lemma example_run_type_error:
  "train_sinkhorn_vae (example_libs example_train mixed_val) example_config None 0 =
   \<lparr>printed = [''Could not find GPU, reverting to CPU training!''],
    reports = [], outcome = Raised TypeError\<rparr>"
  by (simp add: example_simps)

text \<open>
  With an \<^verbatim>\<open>Adam\<close> that takes the module's keywords and with \<open>mixed_val\<close>, both epochs
  report: each loss is the constant of its loss function, the total is
  \<open>4 * 2 + 1 * 3 + 2 * 5\<close>, and every count is 1.
\<close>

lemma example_run_reports:
  "train_sinkhorn_vae (lenient_libs example_train mixed_val) example_config None 0 =
   \<lparr>printed = [''Could not find GPU, reverting to CPU training!''],
    reports =
      [[(''total_loss'', 21), (''class_loss'', 4), (''dist_loss'', 1),
        (''recon_loss'', 2), (''precision'', 1 / 2), (''recall'', 1 / 2),
        (''accuracy'', 1 / 2), (''specificity'', 1 / 2),
        (''f1_score'', 2 / 3)],
       [(''total_loss'', 21), (''class_loss'', 4), (''dist_loss'', 1),
        (''recon_loss'', 2), (''precision'', 1 / 2), (''recall'', 1 / 2),
        (''accuracy'', 1 / 2), (''specificity'', 1 / 2),
        (''f1_score'', 2 / 3)]],
    outcome = StopIteration\<rparr>"
  by (simp add: example_simps)

text \<open>
  With that \<^verbatim>\<open>Adam\<close> and \<open>negative_val\<close> the first epoch counts \<open>tp = fp = tn = 0\<close> and
  \<open>fn = 1\<close>, and the division of line 139 raises.
\<close>

lemma example_run_raises:
  "train_sinkhorn_vae (lenient_libs example_train negative_val) example_config None 0 =
   \<lparr>printed = [''Could not find GPU, reverting to CPU training!''],
    reports = [], outcome = Raised ZeroDivisionError\<rparr>"
  by (simp add: example_simps)

section \<open>The claims\<close>

text \<open>
  Claim C3. In every training step and every validation step the total loss is
  \<^verbatim>\<open>class_loss * w_class + distribution_loss * w_distribution + reconstruction_loss * w_reconstruction\<close>
  with the three weights of the configuration. The training step back-propagates that
  loss, the validation step adds its value to \<^verbatim>\<open>loss_accum\<close>.
\<close>

theorem total_loss_weighted_sum:
  "(let l = fst (train_step L cfg dev fns batch w) in
      loss l =
        tensor_add L
          (tensor_add L
            (tensor_mul L (class_loss l) (losses_class_weight cfg))
            (tensor_mul L (distribution_loss l) (losses_distribution_weight cfg)))
          (tensor_mul L (reconstruction_loss l) (losses_reconstruction_weight cfg))
      \<and> (\<exists>w'. snd (train_step L cfg dev fns batch w) =
            optimizer_step L (loss_backward L (loss l) w')))
   \<and> (let l = fst (val_step L cfg dev fns batch w) in
      loss l =
        tensor_add L
          (tensor_add L
            (tensor_mul L (class_loss l) (losses_class_weight cfg))
            (tensor_mul L (distribution_loss l) (losses_distribution_weight cfg)))
          (tensor_mul L (reconstruction_loss l) (losses_reconstruction_weight cfg))
      \<and> loss_accum (accumulate L cfg l a) = loss_accum a + tensor_item L (loss l))"
proof -
  have "loss (fst (train_step L cfg dev fns batch w)) =
      tensor_add L
        (tensor_add L
          (tensor_mul L (class_loss (fst (train_step L cfg dev fns batch w)))
             (losses_class_weight cfg))
          (tensor_mul L (distribution_loss (fst (train_step L cfg dev fns batch w)))
             (losses_distribution_weight cfg)))
        (tensor_mul L (reconstruction_loss (fst (train_step L cfg dev fns batch w)))
           (losses_reconstruction_weight cfg))"
    by (rule train_step_loss)
  moreover have "\<exists>w'. snd (train_step L cfg dev fns batch w) =
      optimizer_step L (loss_backward L (loss (fst (train_step L cfg dev fns batch w))) w')"
    by (rule train_step_backward)
  moreover have "loss (fst (val_step L cfg dev fns batch w)) =
      tensor_add L
        (tensor_add L
          (tensor_mul L (class_loss (fst (val_step L cfg dev fns batch w)))
             (losses_class_weight cfg))
          (tensor_mul L (distribution_loss (fst (val_step L cfg dev fns batch w)))
             (losses_distribution_weight cfg)))
        (tensor_mul L (reconstruction_loss (fst (val_step L cfg dev fns batch w)))
           (losses_reconstruction_weight cfg))"
    by (rule val_step_loss)
  moreover have "loss_accum (accumulate L cfg (fst (val_step L cfg dev fns batch w)) a) =
      loss_accum a + tensor_item L (loss (fst (val_step L cfg dev fns batch w)))"
    by (rule accumulate_loss)
  ultimately show ?thesis unfolding Let_def by blast
qed

theorem total_loss_weighted_sum_witness:
  "loss (fst (train_step (example_libs example_train mixed_val) example_config ''cpu''
       (make_loss_fns (example_libs example_train mixed_val) example_config [1 / 2])
       ([1, 0], [1, 0]) 0)) = [4 * 2 + 1 * 3 + 2 * 5]
   \<and> loss (fst (val_step (example_libs example_train mixed_val) example_config ''cpu''
       (make_loss_fns (example_libs example_train mixed_val) example_config [1 / 2])
       ([1, 0, 0, 1], [1, 1, 0, 0]) 0)) = [4 * 2 + 1 * 3 + 2 * 5]
   \<and> loss_accum (accumulate (example_libs example_train mixed_val) example_config
       (fst (val_step (example_libs example_train mixed_val) example_config ''cpu''
         (make_loss_fns (example_libs example_train mixed_val) example_config [1 / 2])
         ([1, 0, 0, 1], [1, 1, 0, 0]) 0)) zero_accum) = 21"
  using total_loss_weighted_sum [of "example_libs example_train mixed_val" example_config
      "''cpu''" "make_loss_fns (example_libs example_train mixed_val) example_config [1 / 2]"
      "([1, 0], [1, 0])" 0 zero_accum]
  by (simp add: example_simps)

text \<open>
  Claim C4. In every step \<^verbatim>\<open>distribution_loss\<close> is the \<^verbatim>\<open>geomloss.SamplesLoss\<close> built from
  the configuration's type, \<^verbatim>\<open>p\<close> and \<^verbatim>\<open>blur\<close>, applied to the reparameterized latent
  codes \<^verbatim>\<open>eps\<close> and to \<^verbatim>\<open>config['training']['batch_size']\<close> samples of the Dirichlet
  distribution whose concentration is \<^verbatim>\<open>alpha\<close> in each of the \<^verbatim>\<open>latent_dims\<close> dimensions.
\<close>

theorem distribution_loss_sinkhorn_dirichlet:
  "(let l = fst (train_step L cfg dev (make_loss_fns L cfg cp) batch w) in
      distribution_loss l =
        SamplesLoss L (losses_distribution_type cfg) (losses_distribution_p cfg)
          (losses_distribution_blur cfg) (eps l) (sampled_dirichlet l)
      \<and> (\<exists>x w1 w2. eps l =
            fst (model_reparameterize L (fst (model_encode L w1 x))
                   (snd (model_encode L w1 x)) w2))
      \<and> (\<exists>w'. sampled_dirichlet l =
            tensor_to L
              (fst (Dirichlet_sample L
                 (replicate (nat (model_latent_dims cfg)) (losses_distribution_alpha cfg))
                 [training_batch_size cfg] w')) dev))
   \<and> (let l = fst (val_step L cfg dev (make_loss_fns L cfg cp) batch w) in
      distribution_loss l =
        SamplesLoss L (losses_distribution_type cfg) (losses_distribution_p cfg)
          (losses_distribution_blur cfg) (eps l) (sampled_dirichlet l)
      \<and> (\<exists>x w1 w2. eps l =
            fst (model_reparameterize L (fst (model_encode L w1 x))
                   (snd (model_encode L w1 x)) w2))
      \<and> (\<exists>w'. sampled_dirichlet l =
            tensor_to L
              (fst (Dirichlet_sample L
                 (replicate (nat (model_latent_dims cfg)) (losses_distribution_alpha cfg))
                 [training_batch_size cfg] w')) dev))"
proof -
  let ?fns = "make_loss_fns L cfg cp"
  have s: "sinkhorn_loss_fn ?fns =
      SamplesLoss L (losses_distribution_type cfg) (losses_distribution_p cfg)
        (losses_distribution_blur cfg)"
    and d: "dirichlet_distribution ?fns =
      replicate (nat (model_latent_dims cfg)) (losses_distribution_alpha cfg)"
    by (simp_all add: make_loss_fns_def)
  have "\<exists>x w1 w2. eps (fst (val_step L cfg dev ?fns batch w)) =
      fst (model_reparameterize L (fst (model_encode L w1 x)) (snd (model_encode L w1 x)) w2)"
    using val_step_eps [of L cfg dev ?fns batch w] by blast
  then show ?thesis
    unfolding Let_def
    using train_step_distribution_loss [of L cfg dev ?fns batch w]
      val_step_distribution_loss [of L cfg dev ?fns batch w]
      train_step_eps [of L cfg dev ?fns batch w]
      train_step_sampled [of L cfg dev ?fns batch w]
      val_step_sampled [of L cfg dev ?fns batch w]
    by (simp only: s d)
qed

theorem distribution_loss_sinkhorn_dirichlet_witness:
  "distribution_loss (fst (val_step (example_libs example_train mixed_val) example_config ''cpu''
       (make_loss_fns (example_libs example_train mixed_val) example_config [1 / 2])
       ([1, 0, 0, 1], [1, 1, 0, 0]) 0)) = [1]
   \<and> eps (fst (val_step (example_libs example_train mixed_val) example_config ''cpu''
       (make_loss_fns (example_libs example_train mixed_val) example_config [1 / 2])
       ([1, 0, 0, 1], [1, 1, 0, 0]) 0)) = [1, 1, 0, 0]
   \<and> sampled_dirichlet (fst (val_step (example_libs example_train mixed_val) example_config
       ''cpu'' (make_loss_fns (example_libs example_train mixed_val) example_config [1 / 2])
       ([1, 0, 0, 1], [1, 1, 0, 0]) 0)) = [1 / 2, 1 / 2]"
  using distribution_loss_sinkhorn_dirichlet [of "example_libs example_train mixed_val"
      example_config "''cpu''" "[1 / 2]" "([1, 0, 0, 1], [1, 1, 0, 0])" 0]
  by (simp add: example_simps)

text \<open>
  Claim C6. The classification loss is a multi-label loss: the model is built with a
  feature head of 7 outputs (\<^verbatim>\<open>feature_dim = 7\<close>), and in every step \<^verbatim>\<open>class_loss\<close> is
  \<^verbatim>\<open>BCEWithLogitsLoss\<close> with \<^verbatim>\<open>pos_weight = (1 / class_proportions) * bias\<close>, applied to
  the feature head's predictions on \<^verbatim>\<open>eps\<close> and to the batch's feature labels; the
  class proportions are the ones \<^verbatim>\<open>get_datasets\<close> returns for the data set.
\<close>

theorem class_loss_multilabel:
  "feature_dim (vae_args_of cfg) = 7
   \<and> (let l = fst (train_step L cfg dev (make_loss_fns L cfg cp) batch w) in
        class_loss l =
          BCEWithLogitsLoss L
            (tensor_mul L (tensor_rdiv L 1 cp) (losses_class_bias cfg))
            (feature_predictions l) (features l)
        \<and> features l = tensor_float L (tensor_to L (batch_get L batch ''features'') dev)
        \<and> (\<exists>w'. feature_predictions l = model_feature_head L w' (eps l)))
   \<and> (let l = fst (val_step L cfg dev (make_loss_fns L cfg cp) batch w) in
        class_loss l =
          BCEWithLogitsLoss L
            (tensor_mul L (tensor_rdiv L 1 cp) (losses_class_bias cfg))
            (feature_predictions l) (features l)
        \<and> features l = tensor_float L (tensor_to L (batch_get L batch ''features'') dev)
        \<and> (\<exists>w'. feature_predictions l = model_feature_head L w' (eps l)))
   \<and> (case get_datasets L cfg w of
        ((trn, vld, class_proportions), w1) \<Rightarrow>
          train_on L cfg dev ck w =
            (case make_optimizer L cfg (model_to L dev (VAE L (vae_args_of cfg) w1)) of
               Inl e \<Rightarrow> ([], Raised e)
             | Inr w4 \<Rightarrow>
                 epochs (run_epoch L cfg dev (make_loss_fns L cfg class_proportions) trn vld)
                   (nat (training_max_epochs cfg)) (restore_checkpoint L ck w4, None)))"
proof -
  let ?fns = "make_loss_fns L cfg cp"
  have c: "class_loss_fn ?fns =
      BCEWithLogitsLoss L (tensor_mul L (tensor_rdiv L 1 cp) (losses_class_bias cfg))"
    by (simp add: make_loss_fns_def)
  have "feature_dim (vae_args_of cfg) = 7"
    by (simp add: vae_args_of_def)
  moreover have "class_loss (fst (train_step L cfg dev ?fns batch w)) =
      BCEWithLogitsLoss L (tensor_mul L (tensor_rdiv L 1 cp) (losses_class_bias cfg))
        (feature_predictions (fst (train_step L cfg dev ?fns batch w)))
        (features (fst (train_step L cfg dev ?fns batch w)))"
    using train_step_class_loss [of L cfg dev ?fns batch w] by (simp only: c)
  moreover have "class_loss (fst (val_step L cfg dev ?fns batch w)) =
      BCEWithLogitsLoss L (tensor_mul L (tensor_rdiv L 1 cp) (losses_class_bias cfg))
        (feature_predictions (fst (val_step L cfg dev ?fns batch w)))
        (features (fst (val_step L cfg dev ?fns batch w)))"
    using val_step_class_loss [of L cfg dev ?fns batch w] by (simp only: c)
  ultimately show ?thesis
    unfolding Let_def
    using train_step_features [of L cfg dev ?fns batch w]
      val_step_features [of L cfg dev ?fns batch w]
      train_step_predictions [of L cfg dev ?fns batch w]
      val_step_predictions [of L cfg dev ?fns batch w]
      train_on_unfold [where L = L and cfg = cfg and w = w and dev = dev and ck = ck]
    by blast
qed

theorem class_loss_multilabel_witness:
  "feature_dim (vae_args_of example_config) = 7
   \<and> class_loss (fst (val_step (example_libs example_train mixed_val) example_config ''cpu''
       (make_loss_fns (example_libs example_train mixed_val) example_config [1 / 2])
       ([1, 0, 0, 1], [1, 1, 0, 0]) 0)) = [4]
   \<and> features (fst (val_step (example_libs example_train mixed_val) example_config ''cpu''
       (make_loss_fns (example_libs example_train mixed_val) example_config [1 / 2])
       ([1, 0, 0, 1], [1, 1, 0, 0]) 0)) = [1, 0, 0, 1]
   \<and> feature_predictions (fst (val_step (example_libs example_train mixed_val) example_config
       ''cpu'' (make_loss_fns (example_libs example_train mixed_val) example_config [1 / 2])
       ([1, 0, 0, 1], [1, 1, 0, 0]) 0)) = [1, 1, 0, 0]"
  using class_loss_multilabel [of example_config "example_libs example_train mixed_val"
      "''cpu''" "[1 / 2]" "([1, 0, 0, 1], [1, 1, 0, 0])" 0 None]
  by (simp add: example_simps vae_args_of_def)

text \<open>
  What \<^verbatim>\<open>run_optuna_tune\<close> fixes about the search: the trainable is
  \<^verbatim>\<open>train_sinkhorn_vae\<close>, the Optuna search algorithm is wrapped in a
  \<^verbatim>\<open>ConcurrencyLimiter\<close> with \<^verbatim>\<open>max_concurrent = 6\<close>, the scheduler is an
  \<^verbatim>\<open>AsyncHyperBandScheduler\<close> with its default arguments, the metric is \<^verbatim>\<open>'total_loss'\<close>
  with mode \<^verbatim>\<open>'min'\<close>, \<^verbatim>\<open>fail_fast\<close> is \<^verbatim>\<open>True\<close>, and there are two trials for a smoke test
  and twenty otherwise. How many trials then run at a time, which of them the
  scheduler stops early or promotes, and what happens to the others when one raises,
  is the behaviour of \<^verbatim>\<open>ray.tune\<close> on these arguments.
\<close>

lemma run_optuna_tune_call:
  "run_optuna_tune space smoke_test =
     \<lparr>trainable = Train_sinkhorn_vae, metric = ''total_loss'', mode = ''min'',
      search_alg = ConcurrencyLimiter OptunaSearch 6, scheduler = AsyncHyperBandScheduler,
      num_samples = (if smoke_test then 2 else 20), search_space = space,
      local_dir = ''results'', fail_fast = True\<rparr>"
  by (simp add: run_optuna_tune_def)

text \<open>The metric of the search is a key of every report a trial yields.\<close>

lemma reports_have_metric:
  "list_all (\<lambda>r. metric (run_optuna_tune space smoke_test) \<in> set (map fst r))
     (reports (train_sinkhorn_vae L cfg ck w))"
proof -
  have "list_all (\<lambda>r. map fst r = report_keys) (reports (train_sinkhorn_vae L cfg ck w))"
    by (simp add: train_sinkhorn_vae_eq train_on_keys)
  then have "list_all (\<lambda>r. ''total_loss'' \<in> set (map fst r))
      (reports (train_sinkhorn_vae L cfg ck w))"
    by (rule list.pred_mono_strong) (simp add: report_keys_def)
  then show ?thesis by (simp add: run_optuna_tune_def)
qed

text \<open>
  Where the set-up of lines 33-66 goes through, the reports of a trial are those of
  its epochs, none more than \<^verbatim>\<open>max_epochs\<close>, each with the nine keys (lemmas
  \<open>epochs_nth\<close>, \<open>epochs_complete\<close>, \<open>epochs_raised\<close>, \<open>train_on_length\<close>,
  \<open>train_on_keys\<close>). With the \<^verbatim>\<open>Adam\<close> of torch it does not go through.
\<close>

lemma trial_type_error:
  assumes "''parameters'' \<notin> set (Adam_parameters L)"
  shows "reports (train_sinkhorn_vae L cfg ck w) = []
    \<and> outcome (train_sinkhorn_vae L cfg ck w) = Raised TypeError"
  by (simp add: train_sinkhorn_vae_eq train_on_type_error [OF assms])

text \<open>
  Claim C7. The claim is that a trial runs \<^verbatim>\<open>max_epochs\<close> epochs, yields one report
  after each and then ends. The code does not do that. With \<^verbatim>\<open>max_epochs = 2\<close> and the
  \<^verbatim>\<open>Adam\<close> of torch, line 47 raises \<^verbatim>\<open>TypeError\<close> (the keyword \<^verbatim>\<open>parameters\<close> names no
  parameter of \<^verbatim>\<open>Adam\<close>) before the first epoch, and the trial yields no report. Were the
  optimizer built, a validation pass without a positive prediction would still end
  the trial at line 139 with \<^verbatim>\<open>ZeroDivisionError\<close> and without a report.
\<close>

theorem trial_yields_no_report:
  "training_max_epochs example_config = 2
   \<and> reports (train_sinkhorn_vae (example_libs example_train mixed_val) example_config None 0)
     = []
   \<and> outcome (train_sinkhorn_vae (example_libs example_train mixed_val) example_config None 0)
     = Raised TypeError
   \<and> reports (train_sinkhorn_vae (lenient_libs example_train negative_val) example_config None 0)
     = []
   \<and> outcome (train_sinkhorn_vae (lenient_libs example_train negative_val) example_config None 0)
     = Raised ZeroDivisionError"
  by (simp add: example_run_type_error example_run_raises) (simp add: example_config_def)

text \<open>
  Claim C8. In every report the value of \<^verbatim>\<open>'accuracy'\<close> is
  \<^verbatim>\<open>(tp + tn) / (tp + fn + tn + fn)\<close>: the divisor counts the false negatives twice and
  the false positives not at all. The value of \<^verbatim>\<open>'f1_score'\<close> is \<^verbatim>\<open>tp / (tp + 0.5)\<close>, the
  same for any two epochs with the same \<^verbatim>\<open>tp\<close>, whatever their false positives and
  false negatives. Neither is the textbook accuracy or F1 score: there are counts at
  which both differ from it.
\<close>

theorem report_accuracy_f1:
  "(yield_value a bn = Inr r \<longrightarrow>
      map_of r ''accuracy'' =
        Some (of_int (tp_accum a + tn_accum a)
                / of_int (tp_accum a + fn_accum a + tn_accum a + fn_accum a))
      \<and> map_of r ''f1_score'' = Some (of_int (tp_accum a) / (of_int (tp_accum a) + 1 / 2)))
   \<and> (yield_value a bn = Inr r \<and> yield_value a' bn' = Inr r' \<and> tp_accum a = tp_accum a' \<longrightarrow>
      map_of r ''f1_score'' = map_of r' ''f1_score'')
   \<and> (\<exists>b n q. yield_value b (Some n) = Inr q
         \<and> map_of q ''accuracy'' \<noteq> Some (standard_accuracy b)
         \<and> map_of q ''f1_score'' \<noteq> Some (standard_f1 b))"
proof -
  have formulas:
    "map_of q ''accuracy'' =
        Some (of_int (tp_accum b + tn_accum b)
                / of_int (tp_accum b + fn_accum b + tn_accum b + fn_accum b))
      \<and> map_of q ''f1_score'' = Some (of_int (tp_accum b) / (of_int (tp_accum b) + 1 / 2))"
    if "yield_value b m = Inr q" for b m q
  proof -
    from that obtain n where "epoch_report b n = Inr q"
      using yield_value_epoch_report [of b m q] by blast
    then show ?thesis
      by (auto simp add: epoch_report_eq split: if_splits)
  qed
  have "yield_value skewed_accum (Some 0) =
      Inr [(''total_loss'', 21), (''class_loss'', 4), (''dist_loss'', 1), (''recon_loss'', 2),
           (''precision'', 1 / 3), (''recall'', 1 / 2), (''accuracy'', 1 / 2),
           (''specificity'', 1 / 3), (''f1_score'', 2 / 3)]"
    by (simp add: yield_value_def epoch_report_eq skewed_accum_def)
  moreover have "standard_accuracy skewed_accum = 2 / 5" "standard_f1 skewed_accum = 2 / 5"
    by (simp_all add: standard_accuracy_def standard_f1_def skewed_accum_def)
  ultimately have differs: "\<exists>b n q. yield_value b (Some n) = Inr q
         \<and> map_of q ''accuracy'' \<noteq> Some (standard_accuracy b)
         \<and> map_of q ''f1_score'' \<noteq> Some (standard_f1 b)"
    by (intro exI [of _ skewed_accum] exI [of _ 0]) simp
  show ?thesis
    using formulas [of a bn r] formulas [of a' bn' r'] differs by simp
qed

theorem report_accuracy_f1_witness:
  "yield_value skewed_accum (Some 0) =
      Inr [(''total_loss'', 21), (''class_loss'', 4), (''dist_loss'', 1), (''recon_loss'', 2),
           (''precision'', 1 / 3), (''recall'', 1 / 2), (''accuracy'', 1 / 2),
           (''specificity'', 1 / 3), (''f1_score'', 2 / 3)]
   \<and> map_of [(''total_loss'', 21), (''class_loss'', 4), (''dist_loss'', 1), (''recon_loss'', 2),
           (''precision'', 1 / 3), (''recall'', 1 / 2), (''accuracy'', 1 / 2),
           (''specificity'', 1 / 3), (''f1_score'', 2 / 3 :: real)] ''accuracy''
      = Some (of_int (tp_accum skewed_accum + tn_accum skewed_accum)
                / of_int (tp_accum skewed_accum + fn_accum skewed_accum
                          + tn_accum skewed_accum + fn_accum skewed_accum))
   \<and> standard_accuracy skewed_accum = 2 / 5
   \<and> standard_f1 skewed_accum = 2 / 5"
  using report_accuracy_f1 [of skewed_accum "Some 0"
      "[(''total_loss'', 21), (''class_loss'', 4), (''dist_loss'', 1), (''recon_loss'', 2),
           (''precision'', 1 / 3), (''recall'', 1 / 2), (''accuracy'', 1 / 2),
           (''specificity'', 1 / 3), (''f1_score'', 2 / 3)]"]
  by (simp add: yield_value_def epoch_report_eq skewed_accum_def standard_accuracy_def
      standard_f1_def)

text \<open>
  Claim C9. The divisions of the report are unguarded. With \<^verbatim>\<open>batch_num\<close> bound, the
  report is produced exactly when every divisor is nonzero; if no prediction is
  positive (\<^verbatim>\<open>tp + fp = 0\<close>), if no label is positive (\<^verbatim>\<open>tp + fn = 0\<close>) or if
  \<^verbatim>\<open>tn + fp = 0\<close>, the dict raises \<^verbatim>\<open>ZeroDivisionError\<close>. Whether \<^verbatim>\<open>batch_num\<close> is bound or
  not, no report is produced then, and an epoch whose report raises ends the trial
  with that exception instead of a report.
\<close>

theorem report_divisions_unguarded:
  "((\<exists>r. yield_value a (Some n) = Inr r) =
      (tp_accum a + fp_accum a \<noteq> 0 \<and> tp_accum a + fn_accum a \<noteq> 0
       \<and> tp_accum a + fn_accum a + tn_accum a + fn_accum a \<noteq> 0
       \<and> tn_accum a + fp_accum a \<noteq> 0))
   \<and> (tp_accum a + fp_accum a = 0 \<longrightarrow> yield_value a (Some n) = Inl ZeroDivisionError)
   \<and> (tp_accum a + fn_accum a = 0 \<longrightarrow> yield_value a (Some n) = Inl ZeroDivisionError)
   \<and> (tn_accum a + fp_accum a = 0 \<longrightarrow> yield_value a (Some n) = Inl ZeroDivisionError)
   \<and> (tp_accum a + fp_accum a = 0 \<or> tp_accum a + fn_accum a = 0 \<or> tn_accum a + fp_accum a = 0
        \<longrightarrow> (\<exists>e. yield_value a bn = Inl e))
   \<and> (fst (run_epoch L cfg dev fns trn vld s) = Inl e \<longrightarrow>
        epochs (run_epoch L cfg dev fns trn vld) (Suc k) s = ([], Raised e))"
proof -
  have bound: "yield_value a (Some n) = epoch_report a n"
    by (rule yield_value_bound)
  have unbound: "\<exists>e. yield_value a bn = Inl e"
    if "tp_accum a + fp_accum a = 0 \<or> tp_accum a + fn_accum a = 0 \<or> tn_accum a + fp_accum a = 0"
  proof (cases bn)
    case None
    then show ?thesis by (simp add: yield_value_def)
  next
    case (Some m)
    with that show ?thesis by (auto simp add: yield_value_def epoch_report_eq)
  qed
  have raise: "epochs (run_epoch L cfg dev fns trn vld) (Suc k) s = ([], Raised e)"
    if "fst (run_epoch L cfg dev fns trn vld s) = Inl e"
    using that by (rule epochs_raise)
  show ?thesis
    using unbound raise by (auto simp add: bound epoch_report_eq)
qed

theorem report_divisions_unguarded_witness:
  "tp_accum no_positive_accum + fp_accum no_positive_accum = 0
   \<and> yield_value no_positive_accum (Some 0) = Inl ZeroDivisionError
   \<and> (\<nexists>r. yield_value no_positive_accum (Some 0) = Inr r)
   \<and> fst (run_epoch (example_libs example_train negative_val) example_config ''cpu''
            (make_loss_fns (example_libs example_train negative_val) example_config [1 / 2])
            example_train negative_val (0, None)) = Inl ZeroDivisionError
   \<and> epochs (run_epoch (example_libs example_train negative_val) example_config ''cpu''
            (make_loss_fns (example_libs example_train negative_val) example_config [1 / 2])
            example_train negative_val) (Suc 1) (0, None) = ([], Raised ZeroDivisionError)"
proof -
  have z: "tp_accum no_positive_accum + fp_accum no_positive_accum = 0"
    by (simp add: no_positive_accum_def)
  have r: "fst (run_epoch (example_libs example_train negative_val) example_config ''cpu''
            (make_loss_fns (example_libs example_train negative_val) example_config [1 / 2])
            example_train negative_val (0, None)) = Inl ZeroDivisionError"
    by (simp add: example_simps)
  show ?thesis
    using z r
      report_divisions_unguarded [of no_positive_accum 0 None
        "example_libs example_train negative_val" example_config "''cpu''"
        "make_loss_fns (example_libs example_train negative_val) example_config [1 / 2]"
        example_train negative_val "(0, None)" ZeroDivisionError 1]
    by simp
qed

text \<open>
  The device after the fall-back is the one \<^verbatim>\<open>get_datasets\<close> does not see: it reads
  \<^verbatim>\<open>config['device']\<close> again and hands that to \<^verbatim>\<open>BertPreprocess\<close> (line 153).
\<close>

lemma get_datasets_device: "preprocess_device (get_datasets_args cfg) = device cfg"
  by (simp add: get_datasets_args_def)




end
